theory Spec2Isabelle
  imports Complex_Main "HOL-Library.AList"
begin

section \<open>Files and directories\<close>

text \<open>
  The services keep their state in a handful of directories and files below the
  project root.  A directory is an association list from entry names to file
  contents; \<open>map_of\<close> looks a name up, \<open>AList.update\<close> creates or overwrites a file
  and \<open>AList.delete\<close> removes it.  This view serves the operations that reach the
  directories through fixed paths, names they generate themselves and listings: there
  an entry name is a single path component and every entry is a regular file.
  \<open>label_image\<close>, which builds its paths from a caller's text, is not among them and
  is modelled over an operating-system interface further down.
\<close>

type_synonym bytes = string

type_synonym dir = "(string \<times> bytes) list"

record fs =
  pending_dir :: dir
  labeled_dir :: dir
  consumed_dir :: "dir option"
  dataset_yaml :: "bytes option"
  model_out :: "bytes option"
  backup_model :: "bytes option"
  best_weights :: "bytes option"

text \<open>
  \<open>pending_dir\<close> and \<open>labeled_dir\<close> are \<open>PENDING_DIR\<close> and \<open>LABELED_DIR\<close> (created at
  import time, so they always exist); \<open>consumed_dir\<close> is \<open>consumed_labeled_data\<close>, which
  exists only after the first consumption; \<open>dataset_yaml\<close> is
  \<open>incremental_dataset.yaml\<close>, \<open>model_out\<close> is \<open>models/best.pt\<close>, \<open>backup_model\<close> is
  \<open>models/best_backup.pt\<close> and \<open>best_weights\<close> is the trainer's
  \<open>runs/detect/incremental_retrain/weights/best.pt\<close>.
\<close>

definition matches_jpg :: "string \<Rightarrow> bool" where
  "matches_jpg name = (drop (length name - 4) name = ''.jpg'')"

definition glob_jpg :: "dir \<Rightarrow> string list" where
  "glob_jpg d = filter matches_jpg (map fst d)"

section \<open>Python text helpers\<close>

definition digit_char :: "nat \<Rightarrow> char" where
  "digit_char n = ''0123456789'' ! n"

fun str_nat :: "nat \<Rightarrow> string" where
  "str_nat n = (if n < 10 then [digit_char n] else str_nat (n div 10) @ [digit_char (n mod 10)])"

declare str_nat.simps [simp del]

definition str_int :: "int \<Rightarrow> string" where
  "str_int i = (if i < 0 then CHR ''-'' # str_nat (nat (- i)) else str_nat (nat i))"

text \<open>\<open>rsplit_dot_head s\<close> is \<open>s.rsplit(".", 1)[0]\<close>.\<close>

definition rsplit_dot_head :: "string \<Rightarrow> string" where
  "rsplit_dot_head s =
     (if CHR ''.'' \<in> set s then rev (tl (dropWhile (\<lambda>c. c \<noteq> CHR ''.'') (rev s))) else s)"

text \<open>\<open>str(KeyError(k))\<close> is the key in single quotes.\<close>

definition str_KeyError :: "string \<Rightarrow> string" where
  "str_KeyError k = [CHR 0x27] @ k @ [CHR 0x27]"

section \<open>OpenCV\<close>

text \<open>
  A decoded colour image is its rows of pixels.  The codec is outside the repository:
  \<open>imdecode\<close> is \<open>cv2.imdecode(np.frombuffer(b, np.uint8), cv2.IMREAD_COLOR)\<close>, which is
  \<open>None\<close> for bytes that are no image; \<open>imwrite\<close> is the outcome of
  \<open>cv2.imwrite(path, img)\<close>: the message of the exception it raises, or else what it
  returns, \<open>Some\<close> of the bytes it has stored at the path when it returns true and
  \<open>None\<close> when it returns false and has stored nothing; \<open>imencode\<close> is
  \<open>cv2.imencode(".jpg", crop)\<close>, \<open>None\<close> when \<open>is_success\<close> is false; \<open>resize\<close> is
  \<open>cv2.resize\<close>, or the message of the exception it raises.
\<close>

type_synonym 'px image = "'px list list"

record 'px cv2 =
  imdecode :: "bytes \<Rightarrow> 'px image option"
  imwrite :: "'px image option \<Rightarrow> string + bytes option"
  imencode :: "'px image \<Rightarrow> bytes option"
  resize :: "'px image option \<Rightarrow> string + 'px image"

section \<open>active\_learning\_service.py\<close>

record settings =
  confidence_threshold :: real
  retrain_trigger_count :: int
  anomaly_threshold :: real

datatype al_status = FLAGGED string string | ERROR string | OK

text \<open>
  \<open>now\<close> is the clock reading \<open>datetime.now().strftime("%Y%m%d_%H%M%S_%f")\<close>, a text
  of digits and underscores, and \<open>fmt_2f\<close> is the float format \<open>:.2f\<close>.  Confidences,
  scores and thresholds are floats that the code only compares and passes on; they are
  taken as reals, which orders them as the floats are ordered (not-a-number aside).
  Line 46 calls \<open>cv2.imwrite\<close> and drops what it returns, so the three outcomes of
  the write are: an exception, caught and reported; true; and false, which passes for
  true.
\<close>

definition handle_detection ::
  "settings \<Rightarrow> 'px cv2 \<Rightarrow> (real \<Rightarrow> string) \<Rightarrow> string \<Rightarrow> fs \<Rightarrow> bytes \<Rightarrow> real \<Rightarrow> int
     \<Rightarrow> fs \<times> al_status" where
  "handle_detection cfg cv fmt_2f now s image_bytes confidence class_id =
     (if confidence < confidence_threshold cfg then
        (let filename = ''review_pending_'' @ now @ ''_conf'' @ fmt_2f confidence
               @ ''_cls'' @ str_int class_id @ ''.jpg'';
             img = imdecode cv image_bytes
         in case imwrite cv img of
              Inl e \<Rightarrow> (s, ERROR e)
            | Inr None \<Rightarrow> (s, FLAGGED filename ''Low confidence score'')
            | Inr (Some written) \<Rightarrow>
                (s\<lparr>pending_dir := AList.update filename written (pending_dir s)\<rparr>,
                 FLAGGED filename ''Low confidence score''))
      else (s, OK))"

definition get_pending_images :: "fs \<Rightarrow> string list" where
  "get_pending_images s = map fst (pending_dir s)"

text \<open>
  A bounding box is a dictionary; \<open>box['cx']\<close> raises \<open>KeyError\<close> on a missing key.
  \<open>pystr\<close> is the text Python's f-string gives a value.  The lines of the boxes before
  the first incomplete one have been written when the exception leaves the
  \<open>with\<close> block.
\<close>

type_synonym 'v box = "string \<rightharpoonup> 'v"

definition box_line :: "('v \<Rightarrow> string) \<Rightarrow> 'v box \<Rightarrow> string + string" where
  "box_line pystr box =
     (case box ''class_id'' of None \<Rightarrow> Inl ''class_id'' | Some c \<Rightarrow>
     (case box ''cx'' of None \<Rightarrow> Inl ''cx'' | Some cx \<Rightarrow>
     (case box ''cy'' of None \<Rightarrow> Inl ''cy'' | Some cy \<Rightarrow>
     (case box ''w'' of None \<Rightarrow> Inl ''w'' | Some w \<Rightarrow>
     (case box ''h'' of None \<Rightarrow> Inl ''h'' | Some h \<Rightarrow>
        Inr (pystr c @ '' '' @ pystr cx @ '' '' @ pystr cy @ '' '' @ pystr w @ '' ''
             @ pystr h @ [CHR 0x0A]))))))"

fun write_boxes :: "('v \<Rightarrow> string) \<Rightarrow> 'v box list \<Rightarrow> string \<Rightarrow> string \<times> string option" where
  "write_boxes pystr [] f = (f, None)"
| "write_boxes pystr (box # boxes) f =
     (case box_line pystr box of
        Inl k \<Rightarrow> (f, Some k)
      | Inr line \<Rightarrow> write_boxes pystr boxes (f @ line))"

datatype label_result = SUCCESS | error string

text \<open>
  \<open>label_image\<close> joins the caller's \<open>filename\<close> to the pending and to the labeled
  directory and hands the paths to \<open>Path.exists\<close>, \<open>shutil.move\<close> and \<open>open\<close>.  What
  those do with a path (how the text is split, what \<open>..\<close> or an empty name lead to,
  when a move goes into a directory) belongs to Python's library and the operating
  system, so they are an interface over a state \<open>'w\<close> of the file system.  A path is
  its base directory and the text joined to it, as in \<open>PENDING_DIR / filename\<close>.
  \<open>path_exists\<close> is \<open>Path.exists\<close>; \<open>shutil_move w src dst\<close> is
  \<open>shutil.move(str(src), str(dst))\<close>, giving the state after the call and the message of
  the exception it raised, if any; \<open>open_write w p text\<close> is the \<open>with open(p, "w")\<close>
  block in which \<open>text\<close> is written, giving the state after the block and the message
  of the exception \<open>open\<close> or a write raised, if any.
\<close>

datatype base_dir = PENDING_DIR | LABELED_DIR

type_synonym path = "base_dir \<times> string"

record 'w os =
  path_exists :: "'w \<Rightarrow> path \<Rightarrow> bool"
  shutil_move :: "'w \<Rightarrow> path \<Rightarrow> path \<Rightarrow> 'w \<times> string option"
  open_write :: "'w \<Rightarrow> path \<Rightarrow> string \<Rightarrow> 'w \<times> string option"

definition label_image ::
  "'w os \<Rightarrow> ('v \<Rightarrow> string) \<Rightarrow> 'w \<Rightarrow> string \<Rightarrow> string \<Rightarrow> 'v box list option
     \<Rightarrow> 'w \<times> label_result" where
  "label_image os pystr w filename label_class bounding_boxes =
     (let pending_path = (PENDING_DIR, filename)
      in if \<not> path_exists os w pending_path then (w, error ''File not found'')
         else
           (let labeled_img_path = (LABELED_DIR, filename)
            in case shutil_move os w pending_path labeled_img_path of
                 (w1, Some e) \<Rightarrow> (w1, error e)
               | (w1, None) \<Rightarrow>
                   (case bounding_boxes of
                      None \<Rightarrow> (w1, SUCCESS)
                    | Some boxes \<Rightarrow>
                        (let label_filename = rsplit_dot_head filename @ ''.txt'';
                             label_filepath = (LABELED_DIR, label_filename);
                             (f, raised) = write_boxes pystr boxes []
                         in case open_write os w1 label_filepath f of
                              (w2, Some e) \<Rightarrow> (w2, error e)
                            | (w2, None) \<Rightarrow>
                                (case raised of
                                   None \<Rightarrow> (w2, SUCCESS)
                                 | Some k \<Rightarrow> (w2, error (str_KeyError k)))))))"

definition check_retrain_trigger :: "settings \<Rightarrow> fs \<Rightarrow> bool" where
  "check_retrain_trigger cfg s =
     (let labeled_count = length (glob_jpg (labeled_dir s))
      in int labeled_count \<ge> retrain_trigger_count cfg)"

section \<open>anomaly\_service.py\<close>

text \<open>
  \<open>autoencoder_model\<close> is \<open>None\<close> when \<open>models/autoencoder.h5\<close> is missing or failed
  to load.  A loaded model is taken as the function from the resized image to the mean
  squared error of its reconstruction (normalisation, \<open>predict\<close> and the mean are
  numeric code outside the repository).
\<close>

record anomaly_result =
  a_status :: string
  a_anomaly_score :: real
  a_threshold :: real
  a_message :: "string option"

definition detect_anomaly ::
  "settings \<Rightarrow> 'px cv2 \<Rightarrow> ('px image \<Rightarrow> real) option \<Rightarrow> bytes \<Rightarrow> string + anomaly_result" where
  "detect_anomaly cfg cv autoencoder_model image_bytes =
     (case autoencoder_model of
        None \<Rightarrow>
          Inr \<lparr>a_status = ''PASS'', a_anomaly_score = 0.0,
               a_threshold = anomaly_threshold cfg,
               a_message = Some ''Autoencoder model not found. Passing by default.''\<rparr>
      | Some model \<Rightarrow>
          (let img = imdecode cv image_bytes
           in case resize cv img of
                Inl e \<Rightarrow> Inl e
              | Inr img_resized \<Rightarrow>
                  (let mse = model img_resized;
                       is_anomaly = mse > anomaly_threshold cfg
                   in Inr \<lparr>a_status = (if is_anomaly then ''ANOMALY'' else ''NORMAL''),
                           a_anomaly_score = mse,
                           a_threshold = anomaly_threshold cfg,
                           a_message = None\<rparr>)))"

section \<open>app.py: the pipeline\<close>

record defect =
  d_class :: string
  d_class_id :: int
  d_confidence :: real
  d_bbox :: "int \<times> int \<times> int \<times> int"
  d_source :: string

record yolo_results =
  y_status :: string
  y_defects :: "defect list"
  y_confidence :: real
  y_annotated_image :: string
  y_classes :: nat

record cnn_result =
  c_verdict :: string
  c_confidence :: real
  c_heatmap_image :: string

record verification =
  v_verdict :: string
  v_confidence :: real
  v_heatmap :: string

text \<open>A verified candidate is the detector's dictionary with its \<open>"verification"\<close> entry.\<close>

type_synonym verified = "defect \<times> verification"

record final_results =
  r_status :: string
  r_defects :: "verified list"
  r_discarded_defects :: "verified list"
  r_confidence :: real
  r_annotated_image :: string
  r_anomaly_info :: anomaly_result
  r_active_learning_flagged :: bool
  r_yolo_classes :: nat

datatype response = Resp400 string | Resp500 string | Resp200 final_results

text \<open>
  NumPy slicing \<open>xs[a:b]\<close> on an axis of length \<open>n\<close>: a negative bound counts from the
  end, and both bounds are cut to \<open>0..n\<close>.
\<close>

definition np_index :: "int \<Rightarrow> nat \<Rightarrow> nat" where
  "np_index i n = (if i < 0 then nat (max 0 (i + int n)) else min (nat i) n)"

definition np_slice :: "int \<Rightarrow> int \<Rightarrow> 'a list \<Rightarrow> 'a list" where
  "np_slice a b xs =
     (let lo = np_index a (length xs); hi = np_index b (length xs)
      in take (hi - lo) (drop lo xs))"

definition crop_image :: "'px image \<Rightarrow> int \<Rightarrow> int \<Rightarrow> int \<Rightarrow> int \<Rightarrow> 'px image" where
  "crop_image img y1 y2 x1 x2 = map (np_slice x1 x2) (np_slice y1 y2 img)"

definition shape_h :: "'px image \<Rightarrow> nat" where
  "shape_h img = length img"

definition shape_w :: "'px image \<Rightarrow> nat" where
  "shape_w img = (case img of [] \<Rightarrow> 0 | row # _ \<Rightarrow> length row)"

definition np_size :: "'px image \<Rightarrow> nat" where
  "np_size img = shape_h img * shape_w img * 3"

text \<open>
  Lines 131 to 135 of the loop body: the box is cut with \<open>max(0, _)\<close> on its first
  corner and \<open>min(w, _)\<close>, \<open>min(h, _)\<close> on its second, then the region is sliced out.
\<close>

definition clamp_bbox :: "'px image \<Rightarrow> int \<times> int \<times> int \<times> int \<Rightarrow> int \<times> int \<times> int \<times> int" where
  "clamp_bbox img_cv bbox =
     (case bbox of (x1, y1, x2, y2) \<Rightarrow>
        (let h = int (shape_h img_cv); w = int (shape_w img_cv)
         in (max 0 x1, max 0 y1, min w x2, min h y2)))"

definition candidate_crop :: "'px image \<Rightarrow> defect \<Rightarrow> 'px image" where
  "candidate_crop img_cv defect =
     (case clamp_bbox img_cv (d_bbox defect) of (x1, y1, x2, y2) \<Rightarrow>
        crop_image img_cv y1 y2 x1 x2)"

definition AttributeError_shape :: string where
  "AttributeError_shape =
     [CHR 0x27] @ ''NoneType'' @ [CHR 0x27] @ '' object has no attribute ''
       @ [CHR 0x27] @ ''shape'' @ [CHR 0x27]"

text \<open>
  The verifier \<open>predict_cnn_lstm\<close> runs a network outside the repository.  It is taken
  with a state of its own, \<open>'vs\<close>, that every call may change, so that a call that is
  not made leaves a trace; \<open>Inl\<close> is the message of the exception it raises.
\<close>

type_synonym 'vs verifier = "'vs \<Rightarrow> bytes \<Rightarrow> 'vs \<times> (string + cnn_result)"

fun verify_loop ::
  "'px cv2 \<Rightarrow> 'vs verifier \<Rightarrow> 'px image option \<Rightarrow> defect list \<Rightarrow> 'vs
     \<Rightarrow> verified list \<Rightarrow> verified list
     \<Rightarrow> 'vs \<times> (string + verified list \<times> verified list)" where
  "verify_loop cv predict_cnn_lstm img_cv [] vs verified_defects discarded_defects =
     (vs, Inr (verified_defects, discarded_defects))"
| "verify_loop cv predict_cnn_lstm img_cv (defect # rest) vs verified_defects discarded_defects =
     (case img_cv of
        None \<Rightarrow> (vs, Inl AttributeError_shape)
      | Some img \<Rightarrow>
          (let crop = candidate_crop img defect
           in if np_size crop = 0
              then verify_loop cv predict_cnn_lstm img_cv rest vs verified_defects discarded_defects
              else
                (case imencode cv crop of
                   None \<Rightarrow>
                     verify_loop cv predict_cnn_lstm img_cv rest vs verified_defects discarded_defects
                 | Some crop_bytes \<Rightarrow>
                     (case predict_cnn_lstm vs crop_bytes of
                        (vs', Inl e) \<Rightarrow> (vs', Inl e)
                      | (vs', Inr cnn_res) \<Rightarrow>
                          (let v = (defect, \<lparr>v_verdict = c_verdict cnn_res,
                                              v_confidence = c_confidence cnn_res,
                                              v_heatmap = c_heatmap_image cnn_res\<rparr>)
                           in if c_verdict cnn_res = ''DEFECTIVE''
                              then verify_loop cv predict_cnn_lstm img_cv rest vs'
                                     (verified_defects @ [v]) discarded_defects
                              else verify_loop cv predict_cnn_lstm img_cv rest vs'
                                     verified_defects (discarded_defects @ [v]))))))"

text \<open>
  The request is the uploaded file, name and bytes, when there is one.  The detector
  \<open>predict_defects\<close> is outside the repository's logic as well.  The history log is
  not part of the response and is left out.
\<close>

definition pipeline ::
  "settings \<Rightarrow> 'px cv2 \<Rightarrow> (real \<Rightarrow> string) \<Rightarrow> ('px image \<Rightarrow> real) option
     \<Rightarrow> (bytes \<Rightarrow> string + yolo_results) \<Rightarrow> 'vs verifier \<Rightarrow> string
     \<Rightarrow> fs \<times> 'vs \<Rightarrow> (string \<times> bytes) option \<Rightarrow> (fs \<times> 'vs) \<times> response" where
  "pipeline cfg cv fmt_2f autoencoder_model predict_defects predict_cnn_lstm now st request_file =
     (case request_file of
        None \<Rightarrow> (st, Resp400 ''No image uploaded'')
      | Some (filename, image_bytes) \<Rightarrow>
          if filename = [] then (st, Resp400 ''No image selected'')
          else
            (case detect_anomaly cfg cv autoencoder_model image_bytes of
               Inl e \<Rightarrow> (st, Resp500 e)
             | Inr anomaly_res \<Rightarrow>
                 (case predict_defects image_bytes of
                    Inl e \<Rightarrow> (st, Resp500 e)
                  | Inr yolo \<Rightarrow>
                      (let (s1, al) = handle_detection cfg cv fmt_2f now (fst st) image_bytes
                                        (y_confidence yolo) 0;
                           img_cv = imdecode cv image_bytes
                       in case verify_loop cv predict_cnn_lstm img_cv (y_defects yolo)
                                 (snd st) [] [] of
                            (vs1, Inl e) \<Rightarrow> ((s1, vs1), Resp500 e)
                          | (vs1, Inr (verified_defects, discarded_defects)) \<Rightarrow>
                              (let status =
                                     (if length verified_defects > 0
                                         \<or> a_status anomaly_res = ''ANOMALY''
                                      then ''FAIL'' else ''PASS'')
                               in ((s1, vs1),
                                   Resp200 \<lparr>r_status = status,
                                     r_defects = verified_defects,
                                     r_discarded_defects = discarded_defects,
                                     r_confidence = y_confidence yolo,
                                     r_annotated_image = y_annotated_image yolo,
                                     r_anomaly_info = anomaly_res,
                                     r_active_learning_flagged =
                                       (case al of FLAGGED _ _ \<Rightarrow> True | _ \<Rightarrow> False),
                                     r_yolo_classes = y_classes yolo\<rparr>))))))"

section \<open>incremental\_retrain.py\<close>

text \<open>\<open>yaml_dump\<close> is the text \<open>yaml.dump\<close> gives the dataset dictionary.\<close>

definition create_incremental_dataset_yaml :: "bytes \<Rightarrow> fs \<Rightarrow> fs" where
  "create_incremental_dataset_yaml yaml_dump s = s\<lparr>dataset_yaml := Some yaml_dump\<rparr>"

text \<open>
  The clean-up loop over \<open>NEWLY_LABELED_DIR.iterdir()\<close>: every listed name that is
  still a file moves to the archive, replacing a file of that name there.
\<close>

fun consume_files :: "string list \<Rightarrow> dir \<Rightarrow> dir \<Rightarrow> dir \<times> dir" where
  "consume_files [] labeled consumed = (labeled, consumed)"
| "consume_files (f # fs) labeled consumed =
     (case map_of labeled f of
        None \<Rightarrow> consume_files fs labeled consumed
      | Some content \<Rightarrow>
          consume_files fs (AList.delete f labeled) (AList.update f content consumed))"

text \<open>
  \<open>train\<close> is everything between loading the production model and the return of
  \<open>model.train\<close>: the trainer writes its run directory, and the labelling service may
  move files meanwhile.  It gives the file system at that point and the message of the
  exception raised, if any.  The result is the returned boolean, or the message of an
  uncaught exception.
\<close>

definition run_incremental_retraining ::
  "bytes \<Rightarrow> (fs \<Rightarrow> fs \<times> string option) \<Rightarrow> fs \<Rightarrow> fs \<times> (string + bool)" where
  "run_incremental_retraining yaml_dump train s =
     (let labeled_images = glob_jpg (labeled_dir s)
      in if labeled_images = [] then (s, Inr False)
         else
           (let s1 = create_incremental_dataset_yaml yaml_dump s
            in if model_out s1 = None then (s1, Inr False)
               else
                 (case train s1 of
                    (s2, Some e) \<Rightarrow> (s2, Inl e)
                  | (s2, None) \<Rightarrow>
                      (case best_weights s2 of
                         None \<Rightarrow> (s2, Inr True)
                       | Some new_best \<Rightarrow>
                           (case model_out s2 of
                              None \<Rightarrow> (s2, Inl ''[Errno 2] No such file or directory'')
                            | Some old_best \<Rightarrow>
                                (let s3 = s2\<lparr>backup_model := Some old_best,
                                            model_out := Some new_best\<rparr>;
                                     consumed = (case consumed_dir s3 of
                                                   None \<Rightarrow> [] | Some d \<Rightarrow> d);
                                     (labeled', consumed') =
                                        consume_files (map fst (labeled_dir s3))
                                          (labeled_dir s3) consumed
                                 in (s3\<lparr>labeled_dir := labeled',
                                        consumed_dir := Some consumed'\<rparr>, Inr True)))))))"

section \<open>Notions of the specification\<close>

text \<open>
  A label annotation of the specification has a class id and four coordinates; as a
  dictionary it is complete when the five keys are there, and its line in the sidecar
  file is \<open>classId cx cy w h\<close>.
\<close>

definition complete_box :: "'v box \<Rightarrow> bool" where
  "complete_box box =
     (box ''class_id'' \<noteq> None \<and> box ''cx'' \<noteq> None \<and> box ''cy'' \<noteq> None \<and>
      box ''w'' \<noteq> None \<and> box ''h'' \<noteq> None)"

definition annotation_line :: "('v \<Rightarrow> string) \<Rightarrow> 'v box \<Rightarrow> string" where
  "annotation_line pystr box =
     pystr (the (box ''class_id'')) @ '' '' @ pystr (the (box ''cx'')) @ '' ''
       @ pystr (the (box ''cy'')) @ '' '' @ pystr (the (box ''w'')) @ '' ''
       @ pystr (the (box ''h'')) @ [CHR 0x0A]"

text \<open>\<open>countLabeled\<close>: the number of labeled images in the labeled area.\<close>

definition countLabeled :: "fs \<Rightarrow> nat" where
  "countLabeled s = card {name \<in> fst ` set (labeled_dir s). matches_jpg name}"

text \<open>
  Clamping a box to the image bounds, as the specification words it: every coordinate
  is brought into the image, so that a box outside the image gets zero area.
\<close>

definition clamp_to_image :: "'px image \<Rightarrow> int \<times> int \<times> int \<times> int \<Rightarrow> int \<times> int \<times> int \<times> int" where
  "clamp_to_image img_cv bbox =
     (case bbox of (x1, y1, x2, y2) \<Rightarrow>
        (let h = int (shape_h img_cv); w = int (shape_w img_cv)
         in (max 0 (min w x1), max 0 (min h y1), max 0 (min w x2), max 0 (min h y2))))"

definition rectangular :: "'px image \<Rightarrow> bool" where
  "rectangular img = (\<forall>row \<in> set img. length row = shape_w img)"

text \<open>The two tests a candidate passes before the verifier sees its crop.\<close>

definition nonempty_crop :: "'px image \<Rightarrow> defect \<Rightarrow> bool" where
  "nonempty_crop img defect = (np_size (candidate_crop img defect) \<noteq> 0)"

definition encodable :: "'px cv2 \<Rightarrow> 'px image \<Rightarrow> defect \<Rightarrow> bool" where
  "encodable cv img defect = (imencode cv (candidate_crop img defect) \<noteq> None)"

definition verifiable :: "'px cv2 \<Rightarrow> 'px image \<Rightarrow> defect \<Rightarrow> bool" where
  "verifiable cv img defect =
     (np_size (candidate_crop img defect) \<noteq> 0 \<and> imencode cv (candidate_crop img defect) \<noteq> None)"

section \<open>Example inputs\<close>

text \<open>
  An image of three rows of four pixels, a codec that decodes only the bytes \<open>png\<close> and cannot encode a
  crop of a single row, a verifier that records the crops it is given and calls each
  of them defective, and a file system with one pending and two labeled images.
\<close>

definition ex_cfg :: settings where
  "ex_cfg = \<lparr>confidence_threshold = 0.5, retrain_trigger_count = 2, anomaly_threshold = 0.5\<rparr>"

definition ex_img :: "nat image" where
  "ex_img = [[0, 0, 0, 0], [0, 0, 0, 0], [0, 0, 0, 0]]"

definition ex_cv :: "nat cv2" where
  "ex_cv = \<lparr>imdecode = (\<lambda>b. if b = ''png'' then Some ex_img else None),
            imwrite = (\<lambda>i. case i of None \<Rightarrow> Inl ''empty image'' | Some _ \<Rightarrow> Inr (Some ''jpeg'')),
            imencode = (\<lambda>c. if length c = 1 then None else Some ''crop''),
            resize = (\<lambda>i. case i of None \<Rightarrow> Inl ''empty image'' | Some im \<Rightarrow> Inr im)\<rparr>"

definition ex_fmt :: "real \<Rightarrow> string" where
  "ex_fmt c = (if c = 0.3 then ''0.30'' else ''0.80'')"

definition ex_fs :: fs where
  "ex_fs = \<lparr>pending_dir = [(''p.jpg'', ''P'')],
            labeled_dir = [(''a.jpg'', ''A''), (''a.txt'', ''0 0.5 0.5 1.0 1.0''), (''b.jpg'', ''B'')],
            consumed_dir = None, dataset_yaml = None, model_out = Some ''w0'',
            backup_model = None, best_weights = None\<rparr>"

definition ex_fs_flagged :: fs where
  "ex_fs_flagged = ex_fs\<lparr>pending_dir :=
     [(''p.jpg'', ''P''), (''review_pending_T_conf0.30_cls0.jpg'', ''jpeg'')]\<rparr>"

definition ex_fs_no_model :: fs where
  "ex_fs_no_model = ex_fs\<lparr>model_out := None\<rparr>"

text \<open>A codec whose write returns false: nothing is stored and nothing is raised.\<close>

definition ex_cv_refused :: "nat cv2" where
  "ex_cv_refused = ex_cv\<lparr>imwrite := (\<lambda>i. Inr None)\<rparr>"

text \<open>
  An example of the operating-system interface: a small file system in the POSIX
  manner, with the directories and the files by their absolute paths, the project
  at \<open>/app\<close>.  Joining follows \<open>pathlib\<close>: the text is split at slashes, empty
  components and \<open>.\<close> are dropped, and a text that starts with a slash replaces the base.
  A path resolves component by component through existing directories, \<open>..\<close> leading
  to the parent.  A move onto an existing directory goes into it under the source's
  last component; otherwise it renames, a file replacing the file at the destination
  and a directory taking everything below it along.  A source that is the root or ends
  in \<open>..\<close> is refused, and the example follows such a move no further.
\<close>

record ex_world =
  ex_dirs :: "string list list"
  ex_files :: "(string list \<times> bytes) list"

fun split_slash :: "string \<Rightarrow> string list" where
  "split_slash [] = [[]]"
| "split_slash (c # cs) =
     (if c = CHR ''/'' then [] # split_slash cs
      else (case split_slash cs of [] \<Rightarrow> [[c]] | x # xs \<Rightarrow> (c # x) # xs))"

definition ex_base :: "base_dir \<Rightarrow> string list" where
  "ex_base b = (case b of PENDING_DIR \<Rightarrow> [''app'', ''review_pending'']
                        | LABELED_DIR \<Rightarrow> [''app'', ''newly_labeled''])"

definition ex_parts :: "path \<Rightarrow> string list" where
  "ex_parts p =
     (let parts = filter (\<lambda>c. c \<noteq> [] \<and> c \<noteq> ''.'') (split_slash (snd p))
      in if take 1 (snd p) = ''/'' then parts else ex_base (fst p) @ parts)"

fun ex_walk :: "ex_world \<Rightarrow> string list \<Rightarrow> string list \<Rightarrow> string list option" where
  "ex_walk w cur [] = Some cur"
| "ex_walk w cur (c # cs) =
     (if cur \<in> set (ex_dirs w)
      then ex_walk w (if c = ''..'' then butlast cur else cur @ [c]) cs
      else None)"

definition ex_present :: "ex_world \<Rightarrow> string list \<Rightarrow> bool" where
  "ex_present w q = (q \<in> set (ex_dirs w) \<or> map_of (ex_files w) q \<noteq> None)"

definition ex_exists :: "ex_world \<Rightarrow> path \<Rightarrow> bool" where
  "ex_exists w p =
     (case ex_walk w [] (ex_parts p) of None \<Rightarrow> False | Some q \<Rightarrow> ex_present w q)"

definition reprefix :: "string list \<Rightarrow> string list \<Rightarrow> string list \<Rightarrow> string list" where
  "reprefix src dst q = (if take (length src) q = src then dst @ drop (length src) q else q)"

definition ex_rename :: "ex_world \<Rightarrow> string list \<Rightarrow> string list \<Rightarrow> ex_world \<times> string option" where
  "ex_rename w src dst =
     (if src = dst then (w, None)
      else if src \<in> set (ex_dirs w)
      then (if map_of (ex_files w) dst \<noteq> None then (w, Some ''[Errno 20] Not a directory'')
            else if take (length src) dst = src then (w, Some ''[Errno 22] Invalid argument'')
            else (w\<lparr>ex_dirs := map (reprefix src dst) (ex_dirs w),
                    ex_files := map (\<lambda>(q, c). (reprefix src dst q, c)) (ex_files w)\<rparr>, None))
      else (case map_of (ex_files w) src of
              None \<Rightarrow> (w, Some ''[Errno 2] No such file or directory'')
            | Some c \<Rightarrow>
                (w\<lparr>ex_files := AList.update dst c (AList.delete src (ex_files w))\<rparr>, None)))"

definition ex_move :: "ex_world \<Rightarrow> path \<Rightarrow> path \<Rightarrow> ex_world \<times> string option" where
  "ex_move w src dst =
     (case ex_walk w [] (ex_parts src) of
        None \<Rightarrow> (w, Some ''[Errno 2] No such file or directory'')
      | Some s \<Rightarrow>
          if ex_parts src = [] \<or> last (ex_parts src) = ''..''
          then (w, Some ''[Errno 16] Device or resource busy'')
          else
          (case ex_walk w [] (ex_parts dst) of
             None \<Rightarrow> (w, Some ''[Errno 2] No such file or directory'')
           | Some d \<Rightarrow>
               if d \<in> set (ex_dirs w) \<and> s \<noteq> d
               then (case ex_walk w [] (ex_parts dst @ [last (ex_parts src)]) of
                       None \<Rightarrow> (w, Some ''[Errno 2] No such file or directory'')
                     | Some real_dst \<Rightarrow>
                         if ex_present w real_dst
                         then (w, Some ''Destination path already exists'')
                         else ex_rename w s real_dst)
               else ex_rename w s d))"

definition ex_open_write :: "ex_world \<Rightarrow> path \<Rightarrow> string \<Rightarrow> ex_world \<times> string option" where
  "ex_open_write w p text =
     (case ex_walk w [] (ex_parts p) of
        None \<Rightarrow> (w, Some ''[Errno 2] No such file or directory'')
      | Some q \<Rightarrow>
          if q \<in> set (ex_dirs w) then (w, Some ''[Errno 21] Is a directory'')
          else (w\<lparr>ex_files := AList.update q text (ex_files w)\<rparr>, None))"

definition ex_os :: "ex_world os" where
  "ex_os = \<lparr>path_exists = ex_exists, shutil_move = ex_move, open_write = ex_open_write\<rparr>"

text \<open>One pending image; one labeled image with its sidecar file and one without.\<close>

definition ex_w :: ex_world where
  "ex_w = \<lparr>ex_dirs = [[], [''app''], [''app'', ''review_pending''], [''app'', ''newly_labeled'']],
           ex_files = [([''app'', ''review_pending'', ''p.jpg''], ''P''),
                       ([''app'', ''newly_labeled'', ''a.jpg''], ''A''),
                       ([''app'', ''newly_labeled'', ''a.txt''], ''0 0.5 0.5 1.0 1.0''),
                       ([''app'', ''newly_labeled'', ''b.jpg''], ''B'')]\<rparr>"

text \<open>The example file system after \<open>p.jpg\<close> has moved to the labeled directory.\<close>

definition ex_w_moved :: ex_world where
  "ex_w_moved = \<lparr>ex_dirs = [[], [''app''], [''app'', ''review_pending''], [''app'', ''newly_labeled'']],
           ex_files = [([''app'', ''newly_labeled'', ''a.jpg''], ''A''),
                       ([''app'', ''newly_labeled'', ''a.txt''], ''0 0.5 0.5 1.0 1.0''),
                       ([''app'', ''newly_labeled'', ''b.jpg''], ''B''),
                       ([''app'', ''newly_labeled'', ''p.jpg''], ''P'')]\<rparr>"

definition ex_box :: "string box" where
  "ex_box = [''class_id'' \<mapsto> ''1'', ''cx'' \<mapsto> ''0.5'', ''cy'' \<mapsto> ''0.5'',
             ''w'' \<mapsto> ''1.0'', ''h'' \<mapsto> ''1.0'']"

definition ex_verifier :: "bytes list verifier" where
  "ex_verifier calls crop_bytes =
     (calls @ [crop_bytes],
      Inr \<lparr>c_verdict = ''DEFECTIVE'', c_confidence = 0.9, c_heatmap_image = ''heatmap''\<rparr>)"

definition ex_verification :: verification where
  "ex_verification = \<lparr>v_verdict = ''DEFECTIVE'', v_confidence = 0.9, v_heatmap = ''heatmap''\<rparr>"

definition ex_defect :: "int \<times> int \<times> int \<times> int \<Rightarrow> defect" where
  "ex_defect bbox = \<lparr>d_class = ''DEFECTIVE'', d_class_id = 1, d_confidence = 0.8,
                      d_bbox = bbox, d_source = ''DeepPCB-Binary''\<rparr>"

definition ex_detector :: "defect list \<Rightarrow> bytes \<Rightarrow> string + yolo_results" where
  "ex_detector ds image_bytes =
     Inr \<lparr>y_status = (if ds = [] then ''PASS'' else ''FAIL''), y_defects = ds,
          y_confidence = 0.8, y_annotated_image = ''annotated'', y_classes = 2\<rparr>"

definition ex_pass :: anomaly_result where
  "ex_pass = \<lparr>a_status = ''PASS'', a_anomaly_score = 0, a_threshold = 0.5,
      a_message = Some ''Autoencoder model not found. Passing by default.''\<rparr>"



definition ex_yaml :: bytes where
  "ex_yaml = ''path: newly_labeled''"

text \<open>A training run during which the image \<open>c.jpg\<close> is labeled and that produces weights.\<close>

definition ex_train :: "fs \<Rightarrow> fs \<times> string option" where
  "ex_train s =
     (s\<lparr>labeled_dir := AList.update ''c.jpg'' ''C'' (labeled_dir s), best_weights := Some ''w1''\<rparr>,
      None)"

section \<open>The active-learning threshold\<close>

lemma length_update:
  "length (AList.update k v al) = (if k \<in> fst ` set al then length al else Suc (length al))"
  by (induction al) auto

lemma str_int_0: "str_int 0 = ''0''"
  by (simp add: str_int_def str_nat.simps digit_char_def)

lemma handle_detection_distinct:
  "distinct (map fst (pending_dir s)) \<Longrightarrow>
     distinct (map fst (pending_dir
       (fst (handle_detection cfg cv fmt_2f now s image_bytes confidence class_id))))"
  by (auto simp: handle_detection_def Let_def AList.distinct_update
      split: sum.splits option.splits)

text \<open>
  The write whose result line 46 drops: when \<open>cv2.imwrite\<close> returns false, the call
  still answers \<open>FLAGGED\<close> with the generated name, and nothing has been stored.
\<close>

lemma handle_detection_write_refused:
  "confidence < confidence_threshold cfg \<Longrightarrow> imwrite cv (imdecode cv image_bytes) = Inr None \<Longrightarrow>
     handle_detection cfg cv fmt_2f now s image_bytes confidence class_id =
       (s, FLAGGED (''review_pending_'' @ now @ ''_conf'' @ fmt_2f confidence
                      @ ''_cls'' @ str_int class_id @ ''.jpg'') ''Low confidence score'')"
  by (simp add: handle_detection_def Let_def)

lemma ex_write_refused:
  "handle_detection ex_cfg ex_cv_refused ex_fmt ''T'' ex_fs ''png'' 0.3 0 =
     (ex_fs, FLAGGED ''review_pending_T_conf0.30_cls0.jpg'' ''Low confidence score'')"
  by (simp add: handle_detection_def ex_cfg_def ex_cv_refused_def ex_fmt_def str_int_0 Let_def)

text \<open>
  C7, as the code has it.  A confidence at or above the threshold returns \<open>OK\<close> and
  leaves the file system as it is.  Below the threshold the image is decoded and
  written under the generated name: when the write raises, the result is \<open>ERROR\<close> with
  the message and nothing is stored; when the write returns true, the result is
  \<open>FLAGGED\<close> with the generated name, the pending directory holds the written image
  under that name, and nothing else changes.  That is one more pending item when the
  name is new; an item that already has the name is overwritten, and the number of
  items stays.
\<close>

theorem handle_detection_threshold:
  "(confidence_threshold cfg \<le> confidence \<longrightarrow>
      handle_detection cfg cv fmt_2f now s image_bytes confidence class_id = (s, OK)) \<and>
   (confidence < confidence_threshold cfg \<longrightarrow>
      (\<forall>e. imwrite cv (imdecode cv image_bytes) = Inl e \<longrightarrow>
         handle_detection cfg cv fmt_2f now s image_bytes confidence class_id = (s, ERROR e)) \<and>
      (\<forall>written. imwrite cv (imdecode cv image_bytes) = Inr (Some written) \<longrightarrow>
         (let name = ''review_pending_'' @ now @ ''_conf'' @ fmt_2f confidence
                       @ ''_cls'' @ str_int class_id @ ''.jpg'';
              res = handle_detection cfg cv fmt_2f now s image_bytes confidence class_id
          in snd res = FLAGGED name ''Low confidence score'' \<and>
             map_of (pending_dir (fst res)) = (map_of (pending_dir s))(name \<mapsto> written) \<and>
             length (pending_dir (fst res)) =
               (if name \<in> fst ` set (pending_dir s) then length (pending_dir s)
                else Suc (length (pending_dir s))) \<and>
             (fst res)\<lparr>pending_dir := pending_dir s\<rparr> = s)))"
  by (auto simp: handle_detection_def Let_def AList.update_conv' length_update)

text \<open>
  An instance of each case: confidence 0.8 against the threshold 0.5; confidence 0.3
  with bytes that do not decode; confidence 0.3 with an image, stored as the second
  pending item under a name that carries \<open>0.30\<close>.
\<close>

theorem handle_detection_threshold_witness:
  "confidence_threshold ex_cfg \<le> 0.8 \<and>
   handle_detection ex_cfg ex_cv ex_fmt ''T'' ex_fs ''png'' 0.8 0 = (ex_fs, OK) \<and>
   0.3 < confidence_threshold ex_cfg \<and>
   imwrite ex_cv (imdecode ex_cv ''bad'') = Inl ''empty image'' \<and>
   handle_detection ex_cfg ex_cv ex_fmt ''T'' ex_fs ''bad'' 0.3 0 = (ex_fs, ERROR ''empty image'') \<and>
   imwrite ex_cv (imdecode ex_cv ''png'') = Inr (Some ''jpeg'') \<and>
   snd (handle_detection ex_cfg ex_cv ex_fmt ''T'' ex_fs ''png'' 0.3 0) =
     FLAGGED ''review_pending_T_conf0.30_cls0.jpg'' ''Low confidence score'' \<and>
   length (pending_dir (fst (handle_detection ex_cfg ex_cv ex_fmt ''T'' ex_fs ''png'' 0.3 0))) = 2"
  using handle_detection_threshold [of ex_cfg "0.8" ex_cv ex_fmt "''T''" ex_fs "''png''" 0]
    handle_detection_threshold [of ex_cfg "0.3" ex_cv ex_fmt "''T''" ex_fs "''bad''" 0]
    handle_detection_threshold [of ex_cfg "0.3" ex_cv ex_fmt "''T''" ex_fs "''png''" 0]
  by (simp add: ex_cfg_def ex_cv_def ex_fmt_def str_int_0 Let_def) (simp add: ex_fs_def)

text \<open>
  C7 as stated fails below the threshold: bytes that do not decode give \<open>ERROR\<close> and no
  item; a second flag at the same clock reading, confidence and class returns
  \<open>FLAGGED\<close> while the pending directory stays as it was; and so does a write that
  returns false.
\<close>

theorem handle_detection_threshold_counterexample:
  "0.3 < confidence_threshold ex_cfg \<and>
   handle_detection ex_cfg ex_cv ex_fmt ''T'' ex_fs ''bad'' 0.3 0 = (ex_fs, ERROR ''empty image'') \<and>
   handle_detection ex_cfg ex_cv ex_fmt ''T'' ex_fs_flagged ''png'' 0.3 0 =
     (ex_fs_flagged, FLAGGED ''review_pending_T_conf0.30_cls0.jpg'' ''Low confidence score'') \<and>
   handle_detection ex_cfg ex_cv_refused ex_fmt ''T'' ex_fs ''png'' 0.3 0 =
     (ex_fs, FLAGGED ''review_pending_T_conf0.30_cls0.jpg'' ''Low confidence score'')"
  by (simp add: ex_write_refused)
    (simp add: handle_detection_def ex_cfg_def ex_cv_def ex_fmt_def ex_fs_flagged_def ex_fs_def
      str_int_0 Let_def)

section \<open>Labeling\<close>

lemma box_line_complete:
  "complete_box box \<Longrightarrow> box_line pystr box = Inr (annotation_line pystr box)"
  by (auto simp: complete_box_def box_line_def annotation_line_def)

lemma box_line_incomplete:
  "\<not> complete_box box \<Longrightarrow> \<exists>k. box_line pystr box = Inl k"
  by (auto simp: complete_box_def box_line_def split: option.splits)

text \<open>
  What the loop has written when the block is left: the lines of the boxes that come
  before the first incomplete one, and it has raised exactly when there is such a box.
\<close>

lemma write_boxes_written:
  "fst (write_boxes pystr boxes f) =
     f @ concat (map (annotation_line pystr) (takeWhile complete_box boxes))"
proof (induction boxes arbitrary: f)
  case Nil
  show ?case by simp
next
  case (Cons b bs)
  show ?case
  proof (cases "complete_box b")
    case True
    then show ?thesis
      using Cons.IH by (simp add: box_line_complete)
  next
    case False
    then obtain k where "box_line pystr b = Inl k"
      using box_line_incomplete by blast
    with False show ?thesis by simp
  qed
qed

lemma write_boxes_raised:
  "(snd (write_boxes pystr boxes f) = None) = (\<forall>b \<in> set boxes. complete_box b)"
proof (induction boxes arbitrary: f)
  case Nil
  show ?case by simp
next
  case (Cons b bs)
  show ?case
  proof (cases "complete_box b")
    case True
    then show ?thesis
      using Cons.IH by (simp add: box_line_complete)
  next
    case False
    then obtain k where "box_line pystr b = Inl k"
      using box_line_incomplete by blast
    with False show ?thesis by simp
  qed
qed

lemma complete_ex_box: "complete_box ex_box"
  by (simp add: complete_box_def ex_box_def)

text \<open>What the guard does: a path that does not exist gets \<open>File not found\<close>, untouched.\<close>

lemma label_image_missing:
  "\<not> path_exists os w (PENDING_DIR, filename) \<Longrightarrow>
     label_image os pystr w filename lc bbs = (w, error ''File not found'')"
  by (simp add: label_image_def)

text \<open>The example file system at the paths used below.\<close>

lemma ex_parts_simps:
  "ex_parts (PENDING_DIR, ''p.jpg'') = [''app'', ''review_pending'', ''p.jpg'']"
  "ex_parts (LABELED_DIR, ''p.jpg'') = [''app'', ''newly_labeled'', ''p.jpg'']"
  "ex_parts (LABELED_DIR, ''p.txt'') = [''app'', ''newly_labeled'', ''p.txt'']"
  "ex_parts (PENDING_DIR, ''a.jpg'') = [''app'', ''review_pending'', ''a.jpg'']"
  "ex_parts (PENDING_DIR, []) = [''app'', ''review_pending'']"
  "ex_parts (LABELED_DIR, []) = [''app'', ''newly_labeled'']"
  "ex_parts (LABELED_DIR, ''.txt'') = [''app'', ''newly_labeled'', ''.txt'']"
  "ex_parts (PENDING_DIR, ''../newly_labeled/a.jpg'') =
     [''app'', ''review_pending'', ''..'', ''newly_labeled'', ''a.jpg'']"
  "ex_parts (LABELED_DIR, ''../newly_labeled/a.jpg'') =
     [''app'', ''newly_labeled'', ''..'', ''newly_labeled'', ''a.jpg'']"
  "ex_parts (LABELED_DIR, ''../newly_labeled/a.txt'') =
     [''app'', ''newly_labeled'', ''..'', ''newly_labeled'', ''a.txt'']"
  by (simp_all add: ex_parts_def ex_base_def)

lemma ex_exists_p: "path_exists ex_os ex_w (PENDING_DIR, ''p.jpg'')"
  by (simp add: ex_os_def ex_exists_def ex_parts_simps ex_present_def ex_w_def)

lemma ex_move_p:
  "shutil_move ex_os ex_w (PENDING_DIR, ''p.jpg'') (LABELED_DIR, ''p.jpg'') = (ex_w_moved, None)"
  by (simp add: ex_os_def ex_move_def ex_rename_def ex_parts_simps ex_present_def ex_w_def
      ex_w_moved_def)

lemma ex_write_p:
  "open_write ex_os ex_w_moved (LABELED_DIR, ''p.txt'') text =
     (ex_w_moved\<lparr>ex_files := ex_files ex_w_moved @ [([''app'', ''newly_labeled'', ''p.txt''], text)]\<rparr>,
      None)"
  by (simp add: ex_os_def ex_open_write_def ex_parts_simps ex_w_moved_def)

lemma ex_rsplit: "rsplit_dot_head ''p.jpg'' = ''p''"
  by (simp add: rsplit_dot_head_def)

lemma ex_annotation_line: "annotation_line id ex_box = ''1 0.5 0.5 1.0 1.0'' @ [CHR 0x0A]"
  by (simp add: annotation_line_def ex_box_def)

text \<open>
  A pending image is labeled once, and a second call on its name is refused; the name
  of an image that is labeled already is refused as well.
\<close>

lemma ex_label_once:
  "label_image ex_os id ex_w ''p.jpg'' ''1'' (Some [ex_box]) =
     (ex_w_moved\<lparr>ex_files := ex_files ex_w_moved @
        [([''app'', ''newly_labeled'', ''p.txt''], ''1 0.5 0.5 1.0 1.0'' @ [CHR 0x0A])]\<rparr>, SUCCESS)"
  by (simp add: label_image_def ex_exists_p ex_move_p ex_rsplit ex_write_p
      box_line_complete complete_ex_box ex_annotation_line)

lemma ex_label_again:
  "label_image ex_os id
     (ex_w_moved\<lparr>ex_files := ex_files ex_w_moved @
        [([''app'', ''newly_labeled'', ''p.txt''], ''1 0.5 0.5 1.0 1.0'' @ [CHR 0x0A])]\<rparr>)
     ''p.jpg'' ''1'' (Some [ex_box]) =
     (ex_w_moved\<lparr>ex_files := ex_files ex_w_moved @
        [([''app'', ''newly_labeled'', ''p.txt''], ''1 0.5 0.5 1.0 1.0'' @ [CHR 0x0A])]\<rparr>,
      error ''File not found'')"
  by (rule label_image_missing)
    (simp add: ex_os_def ex_exists_def ex_parts_simps ex_present_def ex_w_moved_def)

lemma ex_label_labeled:
  "label_image ex_os id ex_w ''a.jpg'' ''1'' (Some [ex_box]) = (ex_w, error ''File not found'')"
  by (rule label_image_missing)
    (simp add: ex_os_def ex_exists_def ex_parts_simps ex_present_def ex_w_def)

text \<open>
  A box without its \<open>cy\<close>: the image has left the pending directory, the sidecar file
  is there, empty, and the call answers with the \<open>KeyError\<close>.
\<close>

lemma ex_label_incomplete:
  "label_image ex_os id ex_w ''p.jpg'' ''1'' (Some [[''class_id'' \<mapsto> ''1'', ''cx'' \<mapsto> ''0.5'']]) =
     (ex_w_moved\<lparr>ex_files := ex_files ex_w_moved @ [([''app'', ''newly_labeled'', ''p.txt''], [])]\<rparr>,
      error (str_KeyError ''cy''))"
  by (simp add: label_image_def ex_exists_p ex_move_p ex_rsplit ex_write_p box_line_def)

text \<open>
  A path to an image that is labeled already: the name is no pending item, the call
  succeeds, and the sidecar file of the labeled image is overwritten.
\<close>

lemma ex_label_path:
  "label_image ex_os id ex_w ''../newly_labeled/a.jpg'' ''1'' (Some [ex_box]) =
     (ex_w\<lparr>ex_files :=
        [([''app'', ''review_pending'', ''p.jpg''], ''P''),
         ([''app'', ''newly_labeled'', ''a.jpg''], ''A''),
         ([''app'', ''newly_labeled'', ''a.txt''], ''1 0.5 0.5 1.0 1.0'' @ [CHR 0x0A]),
         ([''app'', ''newly_labeled'', ''b.jpg''], ''B'')]\<rparr>, SUCCESS)"
  by (simp add: label_image_def ex_os_def ex_exists_def ex_move_def ex_rename_def
      ex_open_write_def ex_parts_simps ex_present_def ex_w_def rsplit_dot_head_def
      box_line_complete complete_ex_box ex_annotation_line)

text \<open>
  C5 fails on the empty name.  No review item has it, but joined to the pending
  directory it is the pending directory itself, which exists: the guard lets the call
  through, the move takes the whole pending directory, with the pending image in it,
  into the labeled directory, the file \<open>.txt\<close> is written there, and the call answers
  \<open>SUCCESS\<close>.
\<close>

theorem label_image_empty_name:
  "ex_parts (PENDING_DIR, []) = [''app'', ''review_pending''] \<and>
   path_exists ex_os ex_w (PENDING_DIR, []) \<and>
   label_image ex_os id ex_w [] ''1'' (Some ([] :: string box list)) =
     (\<lparr>ex_dirs = [[], [''app''], [''app'', ''newly_labeled'', ''review_pending''],
                  [''app'', ''newly_labeled'']],
       ex_files = [([''app'', ''newly_labeled'', ''review_pending'', ''p.jpg''], ''P''),
                   ([''app'', ''newly_labeled'', ''a.jpg''], ''A''),
                   ([''app'', ''newly_labeled'', ''a.txt''], ''0 0.5 0.5 1.0 1.0''),
                   ([''app'', ''newly_labeled'', ''b.jpg''], ''B''),
                   ([''app'', ''newly_labeled'', ''.txt''], [])]\<rparr>, SUCCESS)"
  by (simp add: label_image_def ex_os_def ex_exists_def ex_move_def ex_rename_def
      ex_open_write_def ex_parts_simps ex_present_def ex_w_def rsplit_dot_head_def reprefix_def)

text \<open>
  C6, as the code has it.  When the pending path exists and the move to the labeled
  directory has not raised, the sidecar file, named by \<open>filename\<close> up to its last dot
  and \<open>.txt\<close>, is opened and written if and only if a box list is passed
  (\<open>bounding_boxes is not None\<close>), the empty list included.  Without a list the call
  answers \<open>SUCCESS\<close> and leaves the file system as the move left it.  With a list, what
  is written is one line \<open>class_id cx cy w h\<close> per box, in the order of the list and
  each ended by a newline, for the boxes before the first one that lacks a key; with
  a list of complete boxes that is one line for every box, and the call answers
  \<open>SUCCESS\<close> unless opening or writing the file raises.
\<close>

theorem label_image_sidecar:
  assumes "path_exists os w (PENDING_DIR, filename)"
    and "shutil_move os w (PENDING_DIR, filename) (LABELED_DIR, filename) = (w1, None)"
  shows "(bbs = None \<longrightarrow> label_image os pystr w filename lc bbs = (w1, SUCCESS)) \<and>
         (\<forall>boxes. bbs = Some boxes \<longrightarrow>
            fst (label_image os pystr w filename lc bbs) =
              fst (open_write os w1 (LABELED_DIR, rsplit_dot_head filename @ ''.txt'')
                     (concat (map (annotation_line pystr) (takeWhile complete_box boxes)))) \<and>
            ((\<forall>b \<in> set boxes. complete_box b) \<longrightarrow>
               label_image os pystr w filename lc bbs =
                 (case open_write os w1 (LABELED_DIR, rsplit_dot_head filename @ ''.txt'')
                         (concat (map (annotation_line pystr) boxes)) of
                    (w2, None) \<Rightarrow> (w2, SUCCESS)
                  | (w2, Some e) \<Rightarrow> (w2, error e))))"
proof (intro conjI allI impI)
  assume "bbs = None"
  then show "label_image os pystr w filename lc bbs = (w1, SUCCESS)"
    using assms by (simp add: label_image_def)
next
  fix boxes
  assume b: "bbs = Some boxes"
  obtain f raised where wb: "write_boxes pystr boxes [] = (f, raised)"
    by (cases "write_boxes pystr boxes []")
  have f: "f = concat (map (annotation_line pystr) (takeWhile complete_box boxes))"
    using write_boxes_written [of pystr boxes "[]"] wb by simp
  show "fst (label_image os pystr w filename lc bbs) =
          fst (open_write os w1 (LABELED_DIR, rsplit_dot_head filename @ ''.txt'')
                 (concat (map (annotation_line pystr) (takeWhile complete_box boxes))))"
    using assms b wb f
    by (simp add: label_image_def Let_def split: prod.splits option.splits)
  assume c: "\<forall>b \<in> set boxes. complete_box b"
  then have t: "takeWhile complete_box boxes = boxes"
    by (simp add: takeWhile_eq_all_conv)
  have "write_boxes pystr boxes [] = (concat (map (annotation_line pystr) boxes), None)"
    using write_boxes_written [of pystr boxes "[]"] write_boxes_raised [of pystr boxes "[]"] c
    unfolding t by (simp add: prod_eq_iff)
  then show "label_image os pystr w filename lc bbs =
      (case open_write os w1 (LABELED_DIR, rsplit_dot_head filename @ ''.txt'')
              (concat (map (annotation_line pystr) boxes)) of
         (w2, None) \<Rightarrow> (w2, SUCCESS)
       | (w2, Some e) \<Rightarrow> (w2, error e))"
    using assms b
    by (simp add: label_image_def Let_def split: prod.splits option.splits)
qed

text \<open>
  An instance in the example file system: the pending image \<open>p.jpg\<close>, labeled without
  a box list and labeled with two boxes.
\<close>

theorem label_image_sidecar_witness:
  "path_exists ex_os ex_w (PENDING_DIR, ''p.jpg'') \<and>
   shutil_move ex_os ex_w (PENDING_DIR, ''p.jpg'') (LABELED_DIR, ''p.jpg'') = (ex_w_moved, None) \<and>
   label_image ex_os id ex_w ''p.jpg'' ''1'' None = (ex_w_moved, SUCCESS) \<and>
   label_image ex_os id ex_w ''p.jpg'' ''1'' (Some [ex_box, ex_box]) =
     (ex_w_moved\<lparr>ex_files := ex_files ex_w_moved @
        [([''app'', ''newly_labeled'', ''p.txt''],
          ''1 0.5 0.5 1.0 1.0'' @ [CHR 0x0A] @ ''1 0.5 0.5 1.0 1.0'' @ [CHR 0x0A])]\<rparr>, SUCCESS)"
  using ex_exists_p ex_move_p
    label_image_sidecar [where os = ex_os and w = ex_w and ?w1.0 = ex_w_moved
      and filename = "''p.jpg''" and bbs = None and pystr = id and lc = "''1''",
      OF ex_exists_p ex_move_p]
    label_image_sidecar [where os = ex_os and w = ex_w and ?w1.0 = ex_w_moved
      and filename = "''p.jpg''" and bbs = "Some [ex_box, ex_box]" and pystr = id and lc = "''1''",
      OF ex_exists_p ex_move_p]
  by (simp add: complete_ex_box ex_rsplit ex_write_p ex_annotation_line)

text \<open>
  C6 as stated fails for the empty list, which is what the labeling endpoint passes when
  the request has no boxes: the sidecar file \<open>p.txt\<close>, which was not there, is written,
  empty.
\<close>

theorem label_image_sidecar_counterexample:
  "map_of (ex_files ex_w) [''app'', ''newly_labeled'', ''p.txt''] = None \<and>
   label_image ex_os id ex_w ''p.jpg'' ''1'' (Some ([] :: string box list)) =
     (ex_w_moved\<lparr>ex_files := ex_files ex_w_moved @ [([''app'', ''newly_labeled'', ''p.txt''], [])]\<rparr>,
      SUCCESS)"
  by (simp add: label_image_def ex_exists_p ex_move_p ex_rsplit ex_write_p)
    (simp add: ex_w_def)

section \<open>The retrain trigger\<close>

lemma countLabeled_length:
  assumes "distinct (map fst (labeled_dir s))"
  shows "countLabeled s = length (glob_jpg (labeled_dir s))"
proof -
  have "{name \<in> fst ` set (labeled_dir s). matches_jpg name} = set (glob_jpg (labeled_dir s))"
    by (auto simp: glob_jpg_def)
  moreover have "distinct (glob_jpg (labeled_dir s))"
    using assms by (simp add: glob_jpg_def)
  ultimately show ?thesis
    by (simp add: countLabeled_def distinct_card)
qed

text \<open>
  C9.  In a labeled directory with one entry per name, \<open>check_retrain_trigger\<close> holds
  if and only if the number of labeled images is at least the trigger count, so it
  holds when the two are equal.  The function reads the file system and returns a
  boolean only: there is no file system for it to give back changed.
\<close>

theorem check_retrain_trigger_iff:
  assumes "distinct (map fst (labeled_dir s))"
  shows "(check_retrain_trigger cfg s \<longleftrightarrow> retrain_trigger_count cfg \<le> int (countLabeled s)) \<and>
         (int (countLabeled s) = retrain_trigger_count cfg \<longrightarrow> check_retrain_trigger cfg s)"
  using countLabeled_length [OF assms] by (simp add: check_retrain_trigger_def)

text \<open>An instance at the boundary: two labeled images, trigger count two.\<close>

theorem check_retrain_trigger_iff_witness:
  "distinct (map fst (labeled_dir ex_fs)) \<and>
   int (countLabeled ex_fs) = retrain_trigger_count ex_cfg \<and>
   check_retrain_trigger ex_cfg ex_fs"
proof -
  have d: "distinct (map fst (labeled_dir ex_fs))"
    by (simp add: ex_fs_def)
  have c: "countLabeled ex_fs = 2"
    using countLabeled_length [OF d] by (simp add: glob_jpg_def matches_jpg_def ex_fs_def)
  show ?thesis
    using d c check_retrain_trigger_iff [OF d, of ex_cfg] by (simp add: ex_cfg_def)
qed

section \<open>The verification loop\<close>

lemma verify_loop_skip:
  "\<not> verifiable cv img defect \<Longrightarrow>
     verify_loop cv ver (Some img) (defect # rest) vs vd dd =
       verify_loop cv ver (Some img) rest vs vd dd"
  by (auto simp: verifiable_def Let_def)

text \<open>
  The loop treats a list of candidates as it treats the verifiable ones among them:
  same lists, same verifier state, same exception if any.
\<close>

lemma verify_loop_filter:
  "verify_loop cv ver (Some img) cands vs vd dd =
     verify_loop cv ver (Some img) (filter (verifiable cv img) cands) vs vd dd"
proof (induction cands arbitrary: vs vd dd)
  case Nil
  show ?case by simp
next
  case (Cons d ds)
  show ?case
  proof (cases "verifiable cv img d")
    case False
    then show ?thesis
      using Cons.IH by (simp add: verify_loop_skip del: verify_loop.simps)
  next
    case True
    then show ?thesis
      using Cons.IH by (auto simp: verifiable_def Let_def split: option.splits sum.splits prod.splits)
  qed
qed

lemma verify_loop_filter_weaker:
  assumes "\<And>d. verifiable cv img d \<Longrightarrow> P d"
  shows "verify_loop cv ver (Some img) (filter P cands) vs vd dd =
           verify_loop cv ver (Some img) cands vs vd dd"
proof -
  have "filter (verifiable cv img) (filter P cands) = filter (verifiable cv img) cands"
    using assms by (auto intro: filter_cong)
  then show ?thesis
    using verify_loop_filter [of cv ver img cands vs vd dd]
      verify_loop_filter [of cv ver img "filter P cands" vs vd dd]
    by simp
qed

lemma verify_loop_filter_encodable:
  "verify_loop cv ver (Some img) (filter (encodable cv img) cands) vs vd dd =
     verify_loop cv ver (Some img) cands vs vd dd"
  by (rule verify_loop_filter_weaker) (simp add: verifiable_def encodable_def)

lemma verify_loop_filter_nonempty:
  "verify_loop cv ver (Some img) (filter (nonempty_crop img) cands) vs vd dd =
     verify_loop cv ver (Some img) cands vs vd dd"
  by (rule verify_loop_filter_weaker) (simp add: verifiable_def nonempty_crop_def)

text \<open>Every candidate the loop adds to a list is a verifiable one.\<close>

lemma verify_loop_members:
  "verify_loop cv ver (Some img) cands vs vd dd = (vs', Inr (vd', dd')) \<Longrightarrow>
     fst ` set vd' \<subseteq> fst ` set vd \<union> {d \<in> set cands. verifiable cv img d} \<and>
     fst ` set dd' \<subseteq> fst ` set dd \<union> {d \<in> set cands. verifiable cv img d}"
proof (induction cands arbitrary: vs vd dd)
  case Nil
  then show ?case by auto
next
  case (Cons d ds)
  show ?case
  proof (cases "verifiable cv img d")
    case False
    then have "verify_loop cv ver (Some img) ds vs vd dd = (vs', Inr (vd', dd'))"
      using Cons.prems by (simp add: verify_loop_skip del: verify_loop.simps)
    from Cons.IH [OF this] show ?thesis by auto
  next
    case True
    then obtain crop_bytes where enc: "imencode cv (candidate_crop img d) = Some crop_bytes"
      and sz: "np_size (candidate_crop img d) \<noteq> 0"
      by (auto simp: verifiable_def)
    obtain vs1 r where call: "ver vs crop_bytes = (vs1, r)"
      by (cases "ver vs crop_bytes")
    show ?thesis
    proof (cases r)
      case (Inl e)
      then show ?thesis
        using Cons.prems enc sz call by (simp add: Let_def)
    next
      case (Inr cnn)
      let ?v = "(d, \<lparr>v_verdict = c_verdict cnn, v_confidence = c_confidence cnn,
                      v_heatmap = c_heatmap_image cnn\<rparr>)"
      show ?thesis
      proof (cases "c_verdict cnn = ''DEFECTIVE''")
        case True
        then have "verify_loop cv ver (Some img) ds vs1 (vd @ [?v]) dd = (vs', Inr (vd', dd'))"
          using Cons.prems enc sz call Inr by (simp add: Let_def)
        from Cons.IH [OF this] \<open>verifiable cv img d\<close> show ?thesis by auto
      next
        case False
        then have "verify_loop cv ver (Some img) ds vs1 vd (dd @ [?v]) = (vs', Inr (vd', dd'))"
          using Cons.prems enc sz call Inr by (simp add: Let_def)
        from Cons.IH [OF this] \<open>verifiable cv img d\<close> show ?thesis by auto
      qed
    qed
  qed
qed

section \<open>The pipeline\<close>

lemma pipeline_Resp200D:
  assumes "pipeline cfg cv fmt_2f am det ver now st req = (st', Resp200 res)"
  obtains filename image_bytes anomaly_res yolo vs1 where
    "req = Some (filename, image_bytes)"
    "detect_anomaly cfg cv am image_bytes = Inr anomaly_res"
    "det image_bytes = Inr yolo"
    "verify_loop cv ver (imdecode cv image_bytes) (y_defects yolo) (snd st) [] [] =
       (vs1, Inr (r_defects res, r_discarded_defects res))"
    "r_anomaly_info res = anomaly_res"
    "r_status res =
       (if length (r_defects res) > 0 \<or> a_status anomaly_res = ''ANOMALY''
        then ''FAIL'' else ''PASS'')"
  using assms
  by (auto simp: pipeline_def Let_def
      split: option.splits prod.splits if_splits sum.splits)

text \<open>The example runs.\<close>

lemma ex_crops:
  "candidate_crop ex_img (ex_defect (0, 0, 4, 1)) = [[0, 0, 0, 0]]"
  "candidate_crop ex_img (ex_defect (0, 0, 4, 2)) = [[0, 0, 0, 0], [0, 0, 0, 0]]"
  "candidate_crop ex_img (ex_defect (5, 0, 9, 2)) = [[], []]"
  "candidate_crop ex_img (ex_defect (- 3, 0, - 1, 2)) = [[0, 0, 0], [0, 0, 0]]"
  by (simp_all add: candidate_crop_def clamp_bbox_def crop_image_def np_slice_def np_index_def
      shape_h_def shape_w_def ex_img_def ex_defect_def)

lemma ex_sizes:
  "np_size [[0, 0, 0, 0 :: nat]] = 12"
  "np_size [[0, 0, 0, 0], [0, 0, 0, 0 :: nat]] = 24"
  "np_size ([[], []] :: nat image) = 0"
  "np_size [[0, 0, 0], [0, 0, 0 :: nat]] = 18"
  by (simp_all add: np_size_def shape_h_def shape_w_def)

lemma ex_loop:
  "verify_loop ex_cv ex_verifier (Some ex_img)
     [ex_defect (0, 0, 4, 1), ex_defect (0, 0, 4, 2), ex_defect (5, 0, 9, 2)] [] [] [] =
   ([''crop''], Inr ([(ex_defect (0, 0, 4, 2), ex_verification)], []))"
  by (simp add: ex_crops ex_sizes ex_cv_def ex_verifier_def ex_verification_def)

lemma ex_loop_left:
  "verify_loop ex_cv ex_verifier (Some ex_img) [ex_defect (- 3, 0, - 1, 2)] [] [] [] =
   ([''crop''], Inr ([(ex_defect (- 3, 0, - 1, 2), ex_verification)], []))"
  by (simp add: ex_crops ex_sizes ex_cv_def ex_verifier_def ex_verification_def)

lemma ex_threshold_ok:
  "confidence_threshold ex_cfg \<le> c \<Longrightarrow>
     handle_detection ex_cfg cv fmt_2f now s image_bytes c class_id = (s, OK)"
  by (simp add: handle_detection_def)

lemma ex_threshold: "confidence_threshold ex_cfg = 1 / 2"
  by (simp add: ex_cfg_def)

lemma ex_anomaly:
  "detect_anomaly ex_cfg ex_cv None ''png'' = Inr ex_pass"
  by (simp add: detect_anomaly_def ex_pass_def ex_cfg_def)

lemma ex_decode: "imdecode ex_cv ''png'' = Some ex_img"
  by (simp add: ex_cv_def)

lemma ex_run:
  "pipeline ex_cfg ex_cv ex_fmt None
     (ex_detector [ex_defect (0, 0, 4, 1), ex_defect (0, 0, 4, 2), ex_defect (5, 0, 9, 2)])
     ex_verifier ''T'' (ex_fs, []) (Some (''x.png'', ''png'')) =
   ((ex_fs, [''crop'']),
    Resp200 \<lparr>r_status = ''FAIL'', r_defects = [(ex_defect (0, 0, 4, 2), ex_verification)],
      r_discarded_defects = [], r_confidence = 0.8, r_annotated_image = ''annotated'',
      r_anomaly_info = ex_pass, r_active_learning_flagged = False, r_yolo_classes = 2\<rparr>)"
  by (simp add: pipeline_def ex_anomaly ex_detector_def ex_threshold_ok ex_threshold ex_decode
      ex_loop ex_pass_def del: verify_loop.simps)

lemma ex_run_left:
  "pipeline ex_cfg ex_cv ex_fmt None (ex_detector [ex_defect (- 3, 0, - 1, 2)])
     ex_verifier ''T'' (ex_fs, []) (Some (''x.png'', ''png'')) =
   ((ex_fs, [''crop'']),
    Resp200 \<lparr>r_status = ''FAIL'', r_defects = [(ex_defect (- 3, 0, - 1, 2), ex_verification)],
      r_discarded_defects = [], r_confidence = 0.8, r_annotated_image = ''annotated'',
      r_anomaly_info = ex_pass, r_active_learning_flagged = False, r_yolo_classes = 2\<rparr>)"
  by (simp add: pipeline_def ex_anomaly ex_detector_def ex_threshold_ok ex_threshold ex_decode
      ex_loop_left ex_pass_def del: verify_loop.simps)

lemma ex_run_empty:
  "pipeline ex_cfg ex_cv ex_fmt None (ex_detector [])
     ex_verifier ''T'' (ex_fs, []) (Some (''x.png'', ''png'')) =
   ((ex_fs, []),
    Resp200 \<lparr>r_status = ''PASS'', r_defects = [],
      r_discarded_defects = [], r_confidence = 0.8, r_annotated_image = ''annotated'',
      r_anomaly_info = ex_pass, r_active_learning_flagged = False, r_yolo_classes = 2\<rparr>)"
  by (simp add: pipeline_def ex_anomaly ex_detector_def ex_threshold_ok ex_threshold ex_decode
      ex_pass_def)





text \<open>
  C2, as the code has it.  Without an anomaly model \<open>detect_anomaly\<close> returns the
  status \<open>PASS\<close> (the statuses it can return are \<open>NORMAL\<close>, \<open>ANOMALY\<close> and \<open>PASS\<close>), the
  score 0, the configured threshold and the message that the model was not found.
  The pipeline treats that status as not anomalous: its result is \<open>FAIL\<close> exactly when
  there is a confirmed defect and \<open>PASS\<close> exactly when there is none.
\<close>

theorem detect_anomaly_no_model:
  "detect_anomaly cfg cv None image_bytes =
     Inr \<lparr>a_status = ''PASS'', a_anomaly_score = 0, a_threshold = anomaly_threshold cfg,
          a_message = Some ''Autoencoder model not found. Passing by default.''\<rparr> \<and>
   (\<forall>st' res. pipeline cfg cv fmt_2f None det ver now st req = (st', Resp200 res) \<longrightarrow>
      a_status (r_anomaly_info res) = ''PASS'' \<and>
      (r_status res = ''FAIL'' \<longleftrightarrow> r_defects res \<noteq> []) \<and>
      (r_status res = ''PASS'' \<longleftrightarrow> r_defects res = []))"
proof (intro conjI allI impI)
  show "detect_anomaly cfg cv None image_bytes =
     Inr \<lparr>a_status = ''PASS'', a_anomaly_score = 0, a_threshold = anomaly_threshold cfg,
          a_message = Some ''Autoencoder model not found. Passing by default.''\<rparr>"
    by (simp add: detect_anomaly_def)
next
  fix st' res
  assume "pipeline cfg cv fmt_2f None det ver now st req = (st', Resp200 res)"
  then obtain b where
    a: "detect_anomaly cfg cv None b = Inr (r_anomaly_info res)" and
    s: "r_status res =
       (if length (r_defects res) > 0 \<or> a_status (r_anomaly_info res) = ''ANOMALY''
        then ''FAIL'' else ''PASS'')"
    by (rule pipeline_Resp200D) auto
  from a have "r_anomaly_info res =
      \<lparr>a_status = ''PASS'', a_anomaly_score = 0, a_threshold = anomaly_threshold cfg,
       a_message = Some ''Autoencoder model not found. Passing by default.''\<rparr>"
    by (simp add: detect_anomaly_def)
  then show p: "a_status (r_anomaly_info res) = ''PASS''"
    by simp
  from s p show "r_status res = ''FAIL'' \<longleftrightarrow> r_defects res \<noteq> []"
    by simp
  from s p show "r_status res = ''PASS'' \<longleftrightarrow> r_defects res = []"
    by simp
qed

text \<open>An instance: no model, no candidate, status \<open>PASS\<close>.\<close>

theorem detect_anomaly_no_model_witness:
  "detect_anomaly ex_cfg ex_cv None ''png'' = Inr ex_pass \<and>
   a_status ex_pass = ''PASS'' \<and>
   snd (pipeline ex_cfg ex_cv ex_fmt None (ex_detector [])
     ex_verifier ''T'' (ex_fs, []) (Some (''x.png'', ''png''))) =
    Resp200 \<lparr>r_status = ''PASS'', r_defects = [],
      r_discarded_defects = [], r_confidence = 0.8, r_annotated_image = ''annotated'',
      r_anomaly_info = ex_pass, r_active_learning_flagged = False, r_yolo_classes = 2\<rparr>"
  using detect_anomaly_no_model [of ex_cfg ex_cv "''png''" ex_fmt "ex_detector []" ex_verifier
      "''T''" "(ex_fs, [])" "Some (''x.png'', ''png'')"] ex_run_empty
  by (simp add: ex_pass_def ex_cfg_def)

text \<open>C2 as stated fails: the status without a model is \<open>PASS\<close>, not \<open>SKIPPED\<close>.\<close>

theorem detect_anomaly_no_model_counterexample:
  "\<not> isl (detect_anomaly ex_cfg ex_cv None ''png'') \<and>
   a_status (projr (detect_anomaly ex_cfg ex_cv None ''png'')) = ''PASS'' \<and>
   a_status (projr (detect_anomaly ex_cfg ex_cv None ''png'')) \<noteq> ''SKIPPED''"
  by (simp add: ex_anomaly ex_pass_def)

text \<open>
  C10.  When the image decodes and the detector returns its candidates, the pipeline
  does exactly what it does when the detector returns only the candidates whose crop
  encodes: the same response, the same file system and the same verifier state, so the
  verifier was not called for the others and they raised nothing.  A candidate whose
  crop does not encode is in neither list of a result.
\<close>

theorem encode_failure_dropped:
  assumes "imdecode cv image_bytes = Some img"
    and "predict_defects image_bytes = Inr yolo"
  shows "pipeline cfg cv fmt_2f am predict_defects ver now st (Some (filename, image_bytes)) =
           pipeline cfg cv fmt_2f am
             (\<lambda>_. Inr (yolo\<lparr>y_defects := filter (encodable cv img) (y_defects yolo)\<rparr>))
             ver now st (Some (filename, image_bytes)) \<and>
         (\<forall>st' res d.
            pipeline cfg cv fmt_2f am predict_defects ver now st (Some (filename, image_bytes)) =
              (st', Resp200 res) \<and>
            \<not> encodable cv img d \<longrightarrow>
            d \<notin> fst ` set (r_defects res) \<and> d \<notin> fst ` set (r_discarded_defects res))"
proof (intro conjI allI impI)
  show "pipeline cfg cv fmt_2f am predict_defects ver now st (Some (filename, image_bytes)) =
           pipeline cfg cv fmt_2f am
             (\<lambda>_. Inr (yolo\<lparr>y_defects := filter (encodable cv img) (y_defects yolo)\<rparr>))
             ver now st (Some (filename, image_bytes))"
    using assms
    by (cases "detect_anomaly cfg cv am image_bytes")
      (simp_all add: pipeline_def Let_def verify_loop_filter_encodable)
next
  fix st' res d
  assume a: "pipeline cfg cv fmt_2f am predict_defects ver now st (Some (filename, image_bytes)) =
              (st', Resp200 res) \<and> \<not> encodable cv img d"
  then have run: "pipeline cfg cv fmt_2f am predict_defects ver now st (Some (filename, image_bytes)) =
              (st', Resp200 res)" and enc: "\<not> encodable cv img d"
    by simp_all
  from run obtain vs1 where
    "verify_loop cv ver (Some img) (y_defects yolo) (snd st) [] [] =
       (vs1, Inr (r_defects res, r_discarded_defects res))"
    by (rule pipeline_Resp200D) (use assms in auto)
  from verify_loop_members [OF this] enc
  show "d \<notin> fst ` set (r_defects res)" and "d \<notin> fst ` set (r_discarded_defects res)"
    by (auto simp: verifiable_def encodable_def)
qed

text \<open>
  An instance: the crop of the first candidate is a single row, which the example codec
  does not encode; the verifier has recorded one call, for the second candidate.
\<close>

theorem encode_failure_dropped_witness:
  "imdecode ex_cv ''png'' = Some ex_img \<and>
   \<not> encodable ex_cv ex_img (ex_defect (0, 0, 4, 1)) \<and>
   pipeline ex_cfg ex_cv ex_fmt None
     (ex_detector [ex_defect (0, 0, 4, 1), ex_defect (0, 0, 4, 2), ex_defect (5, 0, 9, 2)])
     ex_verifier ''T'' (ex_fs, []) (Some (''x.png'', ''png'')) =
   ((ex_fs, [''crop'']),
    Resp200 \<lparr>r_status = ''FAIL'', r_defects = [(ex_defect (0, 0, 4, 2), ex_verification)],
      r_discarded_defects = [], r_confidence = 0.8, r_annotated_image = ''annotated'',
      r_anomaly_info = ex_pass, r_active_learning_flagged = False, r_yolo_classes = 2\<rparr>)"
proof -
  let ?cands = "[ex_defect (0, 0, 4, 1), ex_defect (0, 0, 4, 2), ex_defect (5, 0, 9, 2)]"
  let ?yolo = "\<lparr>y_status = ''FAIL'', y_defects = ?cands,
          y_confidence = 0.8, y_annotated_image = ''annotated'', y_classes = 2\<rparr>"
  have e: "\<not> encodable ex_cv ex_img (ex_defect (0, 0, 4, 1))"
    by (simp add: encodable_def ex_crops ex_cv_def)
  have d: "ex_detector ?cands ''png'' = Inr ?yolo"
    by (simp add: ex_detector_def)
  have "pipeline ex_cfg ex_cv ex_fmt None (ex_detector ?cands) ex_verifier ''T'' (ex_fs, [])
          (Some (''x.png'', ''png'')) =
        pipeline ex_cfg ex_cv ex_fmt None
          (\<lambda>_. Inr (?yolo\<lparr>y_defects := filter (encodable ex_cv ex_img) (y_defects ?yolo)\<rparr>))
          ex_verifier ''T'' (ex_fs, []) (Some (''x.png'', ''png''))"
    using encode_failure_dropped [where cv = ex_cv and image_bytes = "''png''" and img = ex_img
        and predict_defects = "ex_detector ?cands" and yolo = ?yolo, OF ex_decode d]
    by blast
  then show ?thesis
    using e ex_decode ex_run by simp
qed

section \<open>Boxes outside the image\<close>

lemma length_np_slice:
  "length (np_slice a b xs) = np_index b (length xs) - np_index a (length xs)"
  by (auto simp: np_slice_def Let_def np_index_def)

lemma set_np_slice: "set (np_slice a b xs) \<subseteq> set xs"
  by (auto simp: np_slice_def Let_def dest: in_set_takeD in_set_dropD)

lemma np_size_crop:
  assumes "rectangular img"
  shows "np_size (crop_image img y1 y2 x1 x2) =
           (np_index y2 (shape_h img) - np_index y1 (shape_h img)) *
           (if np_index y2 (shape_h img) \<le> np_index y1 (shape_h img) then 0
            else np_index x2 (shape_w img) - np_index x1 (shape_w img)) * 3"
proof (cases "np_slice y1 y2 img")
  case Nil
  then have "np_index y2 (length img) - np_index y1 (length img) = 0"
    using length_np_slice [of y1 y2 img] by simp
  with Nil show ?thesis
    by (simp add: np_size_def crop_image_def shape_h_def shape_w_def)
next
  case (Cons row rows)
  then have "row \<in> set img"
    using set_np_slice [of y1 y2 img] by auto
  then have w: "length row = shape_w img"
    using assms by (simp add: rectangular_def)
  have l: "np_index y2 (length img) - np_index y1 (length img) = Suc (length rows)"
    using length_np_slice [of y1 y2 img] Cons by simp
  show ?thesis
    using Cons w l by (simp add: np_size_def crop_image_def shape_h_def shape_w_def length_np_slice)
qed

lemma np_index_nonneg: "0 \<le> i \<Longrightarrow> np_index i n = min (nat i) n"
  by (simp add: np_index_def)

lemma np_index_extent:
  assumes "0 \<le> b" and "max 0 (min (int n) b) - max 0 (min (int n) a) \<le> 0"
  shows "np_index (min (int n) b) n - np_index (max 0 a) n = 0"
proof -
  have "0 \<le> min (int n) b"
    using assms(1) by simp
  then have 1: "np_index (min (int n) b) n = min (nat (min (int n) b)) n"
    by (rule np_index_nonneg)
  have 2: "np_index (max 0 a) n = min (nat (max 0 a)) n"
    by (rule np_index_nonneg) simp
  have "min (int n) b \<le> min (int n) a \<or> min (int n) b \<le> 0"
    using assms by (simp add: max_def split: if_splits)
  then have "min (nat (min (int n) b)) n \<le> min (nat (max 0 a)) n"
    by (auto simp: min_def max_def split: if_splits)
  then show ?thesis
    unfolding 1 2 by simp
qed

text \<open>
  What the loop does guarantee: for a box whose second corner is not negative, an
  empty intersection with the image gives an empty crop, and the candidate is skipped.
\<close>

lemma zero_area_excluded:
  assumes "rectangular img"
    and "d_bbox defect = (x1, y1, x2, y2)" and "0 \<le> x2" and "0 \<le> y2"
    and "clamp_to_image img (d_bbox defect) = (cx1, cy1, cx2, cy2)"
    and "cx2 - cx1 \<le> 0 \<or> cy2 - cy1 \<le> 0"
  shows "\<not> nonempty_crop img defect"
proof -
  let ?h = "shape_h img" and ?w = "shape_w img"
  have c: "cx1 = max 0 (min (int ?w) x1)" "cx2 = max 0 (min (int ?w) x2)"
    "cy1 = max 0 (min (int ?h) y1)" "cy2 = max 0 (min (int ?h) y2)"
    using assms(2,5) by (simp_all add: clamp_to_image_def Let_def)
  have crop: "candidate_crop img defect =
      crop_image img (max 0 y1) (min (int ?h) y2) (max 0 x1) (min (int ?w) x2)"
    using assms(2) by (simp add: candidate_crop_def clamp_bbox_def Let_def)
  from assms(6) have "np_size (candidate_crop img defect) = 0"
  proof
    assume "cx2 - cx1 \<le> 0"
    then have "np_index (min (int ?w) x2) ?w - np_index (max 0 x1) ?w = 0"
      unfolding c by (rule np_index_extent [OF assms(3)])
    then show ?thesis
      unfolding crop np_size_crop [OF assms(1)] by simp
  next
    assume "cy2 - cy1 \<le> 0"
    then have "np_index (min (int ?h) y2) ?h - np_index (max 0 y1) ?h = 0"
      unfolding c by (rule np_index_extent [OF assms(4)])
    then show ?thesis
      unfolding crop np_size_crop [OF assms(1)] by simp
  qed
  then show ?thesis
    by (simp add: nonempty_crop_def)
qed

lemma empty_crop_not_listed:
  assumes "pipeline cfg cv fmt_2f am det ver now st (Some (filename, image_bytes)) =
             (st', Resp200 res)"
    and "imdecode cv image_bytes = Some img" and "\<not> nonempty_crop img d"
  shows "d \<notin> fst ` set (r_defects res) \<and> d \<notin> fst ` set (r_discarded_defects res)"
  using assms(1)
proof (rule pipeline_Resp200D)
  fix filename' image_bytes' yolo vs1
  assume "Some (filename, image_bytes) = Some (filename', image_bytes')"
    and "verify_loop cv ver (imdecode cv image_bytes') (y_defects yolo) (snd st) [] [] =
       (vs1, Inr (r_defects res, r_discarded_defects res))"
  then have "verify_loop cv ver (Some img) (y_defects yolo) (snd st) [] [] =
       (vs1, Inr (r_defects res, r_discarded_defects res))"
    using assms(2) by simp
  from verify_loop_members [OF this] assms(3) show ?thesis
    by (auto simp: verifiable_def nonempty_crop_def)
qed

text \<open>
  C8 fails on a box left of the image.  In the example image, four wide and three high,
  the box
  \<open>(-3, 0, -1, 2)\<close>, clamped to the image bounds, is \<open>(0, 0, 0, 2)\<close> and has zero
  width.  The loop leaves its second corner at \<open>-1\<close>, which the slice reads as a
  position counted from the right edge: the crop is two rows of three pixels, the
  verifier is called on it, and the candidate is returned as a confirmed defect.
\<close>

theorem box_left_of_image_verified:
  "clamp_to_image ex_img (- 3, 0, - 1, 2) = (0, 0, 0, 2) \<and>
   clamp_bbox ex_img (- 3, 0, - 1, 2) = (0, 0, - 1, 2) \<and>
   candidate_crop ex_img (ex_defect (- 3, 0, - 1, 2)) = [[0, 0, 0], [0, 0, 0]] \<and>
   pipeline ex_cfg ex_cv ex_fmt None (ex_detector [ex_defect (- 3, 0, - 1, 2)])
     ex_verifier ''T'' (ex_fs, []) (Some (''x.png'', ''png'')) =
   ((ex_fs, [''crop'']),
    Resp200 \<lparr>r_status = ''FAIL'', r_defects = [(ex_defect (- 3, 0, - 1, 2), ex_verification)],
      r_discarded_defects = [], r_confidence = 0.8, r_annotated_image = ''annotated'',
      r_anomaly_info = ex_pass, r_active_learning_flagged = False, r_yolo_classes = 2\<rparr>)"
  by (simp add: ex_run_left ex_crops)
    (simp add: clamp_to_image_def clamp_bbox_def shape_h_def shape_w_def ex_img_def)

section \<open>Incremental retraining\<close>



lemma consume_files_distinct:
  "distinct (map fst consumed) \<Longrightarrow> distinct (map fst (snd (consume_files names labeled consumed)))"
  by (induction names arbitrary: labeled consumed)
    (auto simp: AList.distinct_update split: option.splits)


text \<open>The two aborts.\<close>

lemma retrain_no_labeled:
  "glob_jpg (labeled_dir s) = [] \<Longrightarrow>
     run_incremental_retraining yaml_dump train s = (s, Inr False)"
  by (simp add: run_incremental_retraining_def)

lemma retrain_no_model:
  "glob_jpg (labeled_dir s) \<noteq> [] \<Longrightarrow> model_out s = None \<Longrightarrow>
     run_incremental_retraining yaml_dump train s = (s\<lparr>dataset_yaml := Some yaml_dump\<rparr>, Inr False)"
  by (simp add: run_incremental_retraining_def create_incremental_dataset_yaml_def)





text \<open>
  C4 fails when there are labeled images and no production model: the run has written
  the dataset file \<open>incremental_dataset.yaml\<close>, which was not there, before it finds the
  model missing and returns \<open>False\<close>.
\<close>

theorem retrain_without_model_writes_yaml:
  "glob_jpg (labeled_dir ex_fs_no_model) = [''a.jpg'', ''b.jpg''] \<and>
   model_out ex_fs_no_model = None \<and>
   dataset_yaml ex_fs_no_model = None \<and>
   run_incremental_retraining ex_yaml ex_train ex_fs_no_model =
     (ex_fs_no_model\<lparr>dataset_yaml := Some ex_yaml\<rparr>, Inr False)"
  by (simp add: run_incremental_retraining_def create_incremental_dataset_yaml_def
      ex_fs_no_model_def ex_fs_def glob_jpg_def matches_jpg_def)

end
